theory Spec2Isabelle
  imports Main
begin

section \<open>The editor view of shredder (gui/shredder/views/editor.py)\<close>

text \<open>
  The view is widget glue over Gtk. Every widget is modelled by the part of its state
  that the handlers of editor.py read or write; a handler is a function from the state
  before the call to the state after it. The answers of collaborators that are not part
  of editor.py (the size index, the helpers of \<open>shredder.util\<close>, the clock, the file
  chooser's \<open>get_filename\<close>) are arguments of the handler that asks for them.
\<close>

subsection \<open>Strings\<close>

text \<open>
  Text is a list of 8-bit characters. \<open>lower\<close> is \<open>str.lower\<close> on ASCII text: the
  letters \<open>A\<close> to \<open>Z\<close> go to \<open>a\<close> to \<open>z\<close>, every other character stays.
\<close>

definition lower_char :: "char \<Rightarrow> char" where
  "lower_char c =
     (if of_char (CHR ''A'') \<le> (of_char c :: nat) \<and> (of_char c :: nat) \<le> of_char (CHR ''Z'')
      then char_of ((of_char c :: nat) + 32) else c)"

definition lower :: "string \<Rightarrow> string" where
  "lower s = map lower_char s"

text \<open>
  \<open>REMOVED_LABEL.format(s=..., t=..., p=...)\<close>: the template of the module with its three
  fields filled in. The template holds two line breaks, one after the first line and one
  at its end.
\<close>

definition REMOVED_LABEL :: "string \<Rightarrow> string \<Rightarrow> string \<Rightarrow> string" where
  "REMOVED_LABEL s t p =
     ''<big>'' @ s @ ''</big><small> removed</small>'' @ [CHR 0x0A] @
     ''<small>'' @ t @ ''</small> <b><big>'' @ p @ ''</big></b>'' @ [CHR 0x0A]"

subsection \<open>Collaborators of the running label\<close>

text \<open>
  A row of the size index. \<open>push\<close> reads the cell \<open>node[Column.SIZE]\<close> only; Python's
  integers are unbounded, hence \<open>int\<close>.
\<close>

record node =
  SIZE :: int

text \<open>The size index: \<open>lookup_by_path\<close> answers with a row or with \<open>None\<close>.\<close>

record model =
  lookup_by_path :: "string \<Rightarrow> node option"

text \<open>
  \<open>size_to_human_readable\<close> (shredder.util) and \<open>GLib.markup_escape_text\<close> are used by
  \<open>push\<close> and defined elsewhere; they are taken as given functions.
\<close>

record helpers =
  size_to_human_readable :: "int \<Rightarrow> string"
  markup_escape_text :: "string \<Rightarrow> string"

subsection \<open>RunningLabel\<close>

text \<open>
  The label keeps the running total \<open>_size_sum\<close> and the markup it shows
  (the argument of the last \<open>set_markup\<close>).
\<close>

record running_label =
  size_sum :: int
  markup :: string

text \<open>
  \<open>RunningLabel.push\<close>. A prefix that lowers to \<open>keeping\<close> returns at once. Otherwise
  the markup is rendered from the total as it is before this event, and then the total
  grows by the size of the row the index finds, if there is an index and it finds one.
\<close>

definition push ::
  "helpers \<Rightarrow> model option \<Rightarrow> string \<Rightarrow> string \<Rightarrow> running_label \<Rightarrow> running_label" where
  "push H mdl prefix path self =
     (if lower prefix = ''keeping'' then self
      else
        let text = REMOVED_LABEL (size_to_human_readable H (size_sum self)) prefix
                     (markup_escape_text H path);
            self = self\<lparr>markup := text\<rparr>
        in case mdl of
             None \<Rightarrow> self
           | Some m \<Rightarrow>
               (case lookup_by_path m path of
                  None \<Rightarrow> self
                | Some nd \<Rightarrow> self\<lparr>size_sum := size_sum self + SIZE nd\<rparr>))"

text \<open>\<open>RunningLabel.__init__\<close>: the total starts at 0 and the empty event is pushed.\<close>

definition RunningLabel_init :: "helpers \<Rightarrow> running_label" where
  "RunningLabel_init H = push H None [] [] \<lparr>size_sum = 0, markup = []\<rparr>"

text \<open>
  The line-read events of a run reach the label one after the other, each as one call of
  \<open>push\<close> with the event's prefix and path.
\<close>

definition push_all ::
  "helpers \<Rightarrow> model option \<Rightarrow> (string \<times> string) list \<Rightarrow> running_label \<Rightarrow> running_label" where
  "push_all H mdl evs self = fold (\<lambda>(prefix, path). push H mdl prefix path) evs self"

subsection \<open>RunButton\<close>

text \<open>
  The style classes the button handles, and a widget's style context as the list of the
  classes it carries. \<open>add_class\<close> adds a class once, \<open>remove_class\<close> takes it away.
\<close>

datatype style_class = LINKED | SUGGESTED_ACTION | DESTRUCTIVE_ACTION

type_synonym style_context = "style_class list"

definition add_class :: "style_class \<Rightarrow> style_context \<Rightarrow> style_context" where
  "add_class c ctx = (if c \<in> set ctx then ctx else ctx @ [c])"

definition remove_class :: "style_class \<Rightarrow> style_context \<Rightarrow> style_context" where
  "remove_class c ctx = removeAll c ctx"

text \<open>
  The box with its two children: \<open>button\<close> (the Run control proper) and \<open>state\<close> (the
  "Dry run?" toggle). \<open>dry_run\<close> is the property of the box, \<open>state_active\<close> the toggle's
  \<open>active\<close> property; a bidirectional binding keeps the two equal. \<open>sensitive\<close> is the
  sensitivity of the whole box, which its children inherit.
\<close>

record run_button =
  dry_run :: bool
  state_active :: bool
  sensitive :: bool
  box_ctx :: style_context
  button_ctx :: style_context
  state_ctx :: style_context

text \<open>\<open>RunButton._toggle_dry_run\<close>: both children take the colour of the toggle's state.\<close>

definition toggle_ctx :: "bool \<Rightarrow> style_context \<Rightarrow> style_context" where
  "toggle_ctx active ctx =
     (if \<not> active then add_class DESTRUCTIVE_ACTION (remove_class SUGGESTED_ACTION ctx)
      else add_class SUGGESTED_ACTION (remove_class DESTRUCTIVE_ACTION ctx))"

definition toggle_dry_run :: "run_button \<Rightarrow> run_button" where
  "toggle_dry_run self =
     self\<lparr>button_ctx := toggle_ctx (state_active self) (button_ctx self),
          state_ctx := toggle_ctx (state_active self) (state_ctx self)\<rparr>"

text \<open>\<open>RunButton.set_sensitive\<close>.\<close>

definition set_sensitive :: "bool \<Rightarrow> run_button \<Rightarrow> run_button" where
  "set_sensitive is_sensitive self =
     (let self = self\<lparr>sensitive := is_sensitive\<rparr>
      in if \<not> is_sensitive
         then self\<lparr>state_ctx :=
                remove_class DESTRUCTIVE_ACTION (remove_class SUGGESTED_ACTION (state_ctx self))\<rparr>
         else toggle_dry_run self)"

text \<open>
  The toggle changes to \<open>b\<close>: the binding copies the value to \<open>dry_run\<close> and the
  \<open>toggled\<close> signal runs \<open>_toggle_dry_run\<close>.
\<close>

definition state_toggled :: "bool \<Rightarrow> run_button \<Rightarrow> run_button" where
  "state_toggled b self = toggle_dry_run (self\<lparr>state_active := b, dry_run := b\<rparr>)"

text \<open>
  \<open>RunButton.__init__\<close>: a new widget is sensitive, the property defaults to \<open>True\<close>, the
  binding brings the toggle to it, and \<open>_toggle_dry_run\<close> runs.
\<close>

definition RunButton_init :: run_button where
  "RunButton_init =
     toggle_dry_run
       (state_toggled True
          \<lparr>dry_run = True, state_active = False, sensitive = True,
           box_ctx = [LINKED], button_ctx = [], state_ctx = []\<rparr>)"

subsection \<open>Script\<close>

text \<open>
  The script object of \<open>shredder.runner\<close>, as far as the view uses it: \<open>read\<close> is the text
  that \<open>read()\<close> returns, \<open>connections\<close> the handlers connected so far, \<open>run_calls\<close> the
  \<open>dry_run\<close> argument of every call of \<open>run\<close>, oldest first.
\<close>

datatype handler = On_line_read "model option" | On_script_finished

record script =
  read :: string
  connections :: "handler list"
  run_calls :: "bool list"

definition connect :: "handler \<Rightarrow> script \<Rightarrow> script" where
  "connect h s = s\<lparr>connections := connections s @ [h]\<rparr>"

definition run :: "bool \<Rightarrow> script \<Rightarrow> script" where
  "run dry s = s\<lparr>run_calls := run_calls s @ [dry]\<rparr>"

subsection \<open>EditorView\<close>

text \<open>
  \<open>stack\<close>, \<open>left_stack\<close> and \<open>icon_stack\<close> hold the name of the visible child of each
  Gtk.Stack; \<open>buffer_text\<close> is the text of the editor's buffer. The colour scheme and the
  language of the buffer, which \<open>switch_to_script\<close> sets again, are not kept: no handler
  reads them.
\<close>

record editor_view =
  sub_title :: string
  script :: script
  buffer_text :: string
  run_label :: running_label
  left_stack :: string
  stack :: string
  icon_stack :: string
  run_button :: run_button

text \<open>
  The grid that holds the Run control is the child of \<open>stack\<close> named \<open>danger\<close>; the
  spinner is \<open>progressing\<close>, the last screen \<open>finished\<close>.
\<close>

definition run_button_page :: string where
  "run_button_page = ''danger''"

text \<open>
  \<open>EditorView.__init__\<close>. \<open>title\<close> is the subtitle \<open>View.__init__\<close> leaves, \<open>dummy\<close> the
  result of \<open>Script.create_dummy()\<close>. A Gtk.Stack shows the child added first until it
  is told otherwise.
\<close>

definition EditorView_init :: "helpers \<Rightarrow> string \<Rightarrow> script \<Rightarrow> editor_view" where
  "EditorView_init H title dummy =
     \<lparr>sub_title = title, script = dummy, buffer_text = [],
      run_label = RunningLabel_init H, left_stack = ''script'', stack = ''danger'',
      icon_stack = ''warning'', run_button = RunButton_init\<rparr>"

text \<open>\<open>EditorView.switch_to_script\<close>.\<close>

definition switch_to_script :: "editor_view \<Rightarrow> editor_view" where
  "switch_to_script self =
     self\<lparr>sub_title := ''Check the results'',
          left_stack := ''script'',
          buffer_text := read (script self),
          stack := ''danger''\<rparr>"

text \<open>\<open>EditorView._switch_back\<close>, the callback of "Go back to Script".\<close>

definition switch_back :: "editor_view \<Rightarrow> editor_view" where
  "switch_back self =
     switch_to_script (self\<lparr>run_button := set_sensitive False (run_button self)\<rparr>)"

text \<open>
  \<open>EditorView.on_run_script_clicked\<close>. \<open>mdl\<close> is the model of the runner view at the
  time of the click. The call of \<open>run\<close> is written with the constant \<open>True\<close>.
\<close>

definition on_run_script_clicked :: "model option \<Rightarrow> editor_view \<Rightarrow> editor_view" where
  "on_run_script_clicked mdl self =
     (let self = self\<lparr>sub_title := ''Shreddering. Cross fingers!'',
                     stack := ''progressing'',
                     left_stack := ''list''\<rparr>;
          self = self\<lparr>script := connect (On_line_read mdl) (script self)\<rparr>;
          self = self\<lparr>script := connect On_script_finished (script self)\<rparr>
      in self\<lparr>script := run True (script self)\<rparr>)"

text \<open>
  \<open>EditorView.on_view_enter\<close>. \<open>run_script\<close> is the script of the runner view, absent
  when that view has none.
\<close>

definition on_view_enter :: "script option \<Rightarrow> editor_view \<Rightarrow> editor_view" where
  "on_view_enter run_script self =
     (let self = self\<lparr>run_button := set_sensitive True (run_button self)\<rparr>;
          self = (case run_script of None \<Rightarrow> self | Some s \<Rightarrow> self\<lparr>script := s\<rparr>)
      in switch_to_script self)"

text \<open>The two closures that \<open>on_run_script_clicked\<close> connects to the script.\<close>

definition line_read_handler ::
  "helpers \<Rightarrow> model option \<Rightarrow> string \<Rightarrow> string \<Rightarrow> editor_view \<Rightarrow> editor_view" where
  "line_read_handler H mdl prefix line self =
     self\<lparr>run_label := push H mdl prefix line (run_label self)\<rparr>"

definition script_finished_handler :: "editor_view \<Rightarrow> editor_view" where
  "script_finished_handler self = self\<lparr>stack := ''finished''\<rparr>"

text \<open>
  The events the view reacts to, each with the handler \<open>__init__\<close> wires to it. A
  \<open>Line_read\<close> or \<open>Script_finished\<close> event is one call of a connected closure.
\<close>

datatype event =
    Run_clicked "model option"
  | Line_read "model option" string string
  | Script_finished
  | Go_back
  | View_enter "script option"
  | Dry_run_toggled bool
  | Save_clicked
  | Saved

fun handle :: "helpers \<Rightarrow> event \<Rightarrow> editor_view \<Rightarrow> editor_view" where
  "handle H (Run_clicked mdl) self = on_run_script_clicked mdl self"
| "handle H (Line_read mdl prefix line) self = line_read_handler H mdl prefix line self"
| "handle H Script_finished self = script_finished_handler self"
| "handle H Go_back self = switch_back self"
| "handle H (View_enter run_script) self = on_view_enter run_script self"
| "handle H (Dry_run_toggled b) self =
     self\<lparr>run_button := state_toggled b (run_button self),
          icon_stack := (if b then ''warning'' else ''danger'')\<rparr>"
| "handle H Save_clicked self = self\<lparr>left_stack := ''chooser''\<rparr>"
| "handle H Saved self = self\<lparr>left_stack := ''script''\<rparr>"

definition handle_all :: "helpers \<Rightarrow> event list \<Rightarrow> editor_view \<Rightarrow> editor_view" where
  "handle_all H evs self = fold (handle H) evs self"

fun is_line_read :: "event \<Rightarrow> bool" where
  "is_line_read (Line_read mdl prefix line) = True"
| "is_line_read other = False"

fun is_view_enter :: "event \<Rightarrow> bool" where
  "is_view_enter (View_enter run_script) = True"
| "is_view_enter other = False"

subsection \<open>ScriptSaverDialog\<close>

text \<open>The formats the file type button is built with.\<close>

definition choices :: "string list" where
  "choices = [''sh'', ''json'', ''csv'']"

text \<open>
  The clock, as far as \<open>time.strftime\<close> needs it here: the expansions of the three
  directives the suggestion uses (\<open>%F\<close> the date, \<open>%T\<close> the time of day, \<open>%z\<close> the
  offset from UTC).
\<close>

record tm =
  date_F :: string
  time_T :: string
  zone_z :: string

text \<open>
  \<open>time.strftime\<close> for these three directives. Every other character of the format,
  also a \<open>%\<close> before any other letter, is copied.
\<close>

fun strftime :: "tm \<Rightarrow> string \<Rightarrow> string" where
  "strftime t [] = []"
| "strftime t [c] = [c]"
| "strftime t (c # d # fmt) =
     (if c = CHR ''%'' \<and> d = CHR ''F'' then date_F t @ strftime t fmt
      else if c = CHR ''%'' \<and> d = CHR ''T'' then time_T t @ strftime t fmt
      else if c = CHR ''%'' \<and> d = CHR ''z'' then zone_z t @ strftime t fmt
      else c # strftime t (d # fmt))"

text \<open>
  \<open>s.rsplit(sep, 1)\<close>: the text is cut at the last occurrence of \<open>sep\<close>, into the part
  before it and the part after it; without an occurrence the result is the text alone.
\<close>

definition rsplit1 :: "char \<Rightarrow> string \<Rightarrow> string list" where
  "rsplit1 sep s =
     (let tail_part = rev (takeWhile (\<lambda>c. c \<noteq> sep) (rev s));
          rest = dropWhile (\<lambda>c. c \<noteq> sep) (rev s)
      in case rest of
           [] \<Rightarrow> [s]
         | _ # head_rev \<Rightarrow> [rev head_rev, tail_part])"

text \<open>Python's \<open>a or b\<close> on an optional text and on a text: an absent or empty \<open>a\<close> gives \<open>b\<close>.\<close>

definition opt_or :: "string option \<Rightarrow> string \<Rightarrow> string" where
  "opt_or a b = (case a of None \<Rightarrow> b | Some x \<Rightarrow> if x = [] then b else x)"

definition str_or :: "string \<Rightarrow> string \<Rightarrow> string" where
  "str_or a b = (if a = [] then b else a)"

text \<open>\<open>bool(x)\<close> and \<open>not x\<close> on an optional text.\<close>

definition truthy :: "string option \<Rightarrow> bool" where
  "truthy a = (case a of None \<Rightarrow> False | Some x \<Rightarrow> x \<noteq> [])"

text \<open>
  The dialog keeps the sensitivity of the \<open>Save\<close> button (\<open>confirm\<close>) and the name last
  given to \<open>set_current_name\<close>. What \<open>get_filename()\<close> and
  \<open>file_type.get_selected_choice()\<close> answer belongs to the toolkit; each handler takes the
  answers as \<open>filename\<close> and \<open>choice\<close>. The answer of \<open>get_filename()\<close> is the whole path
  of the file, directories included (\<open>on_save_clicked\<close> calls it \<open>abs_path\<close>).
\<close>

record script_saver_dialog =
  confirm_sensitive :: bool
  current_name :: string

definition set_current_name :: "string \<Rightarrow> script_saver_dialog \<Rightarrow> script_saver_dialog" where
  "set_current_name name self = self\<lparr>current_name := name\<rparr>"

text \<open>\<open>ScriptSaverDialog.update_file_suggestion\<close>.\<close>

definition update_file_suggestion ::
  "tm \<Rightarrow> string option \<Rightarrow> script_saver_dialog \<Rightarrow> script_saver_dialog" where
  "update_file_suggestion t choice self =
     (let file_type = opt_or choice ''sh''
      in set_current_name (strftime t (''rmlint-%FT%T%z.'' @ file_type)) self)"

text \<open>
  \<open>ScriptSaverDialog.__init__\<close>: \<open>confirm\<close> starts insensitive, then the first suggestion
  is made.
\<close>

definition ScriptSaverDialog_init :: "tm \<Rightarrow> string option \<Rightarrow> script_saver_dialog" where
  "ScriptSaverDialog_init t choice =
     update_file_suggestion t choice \<lparr>confirm_sensitive = False, current_name = []\<rparr>"

text \<open>
  \<open>ScriptSaverDialog.on_file_type_changed\<close>. Unpacking the result of \<open>rsplit\<close> into two
  names raises ValueError unless there are two parts, and the handler catches it.
  In \<open>path + '.' + choice or ''\<close> the sum is formed first; adding \<open>None\<close> to a text raises
  TypeError, which the handler does not catch.
\<close>

datatype error = TypeError

definition on_file_type_changed ::
  "tm \<Rightarrow> string option \<Rightarrow> string option \<Rightarrow> script_saver_dialog \<Rightarrow> error + script_saver_dialog"
  where
  "on_file_type_changed t choice filename self =
     (case filename of
        None \<Rightarrow> Inr (update_file_suggestion t choice self)
      | Some current_path \<Rightarrow>
          if current_path = [] then Inr (update_file_suggestion t choice self)
          else
            (case rsplit1 (CHR ''.'') current_path of
               [path, ext] \<Rightarrow>
                 (case choice of
                    None \<Rightarrow> Inl TypeError
                  | Some c \<Rightarrow> Inr (set_current_name (str_or (path @ ''.'' @ c) []) self))
             | _ \<Rightarrow> Inr self))"

text \<open>\<open>ScriptSaverDialog.on_selection_changed\<close>.\<close>

definition on_selection_changed ::
  "string option \<Rightarrow> script_saver_dialog \<Rightarrow> script_saver_dialog" where
  "on_selection_changed filename self = self\<lparr>confirm_sensitive := truthy filename\<rparr>"

subsection \<open>Sample collaborators\<close>

text \<open>
  Concrete collaborators for the worked examples below: a size printer that writes the
  number of bytes in decimal, an escaper for the three characters \<open>&\<close>, \<open><\<close> and \<open>>\<close>,
  an index with two entries, a script and a clock reading.
\<close>

fun decimal :: "nat \<Rightarrow> string" where
  "decimal n =
     (if n < 10 then [char_of (48 + n)]
      else decimal (n div 10) @ [char_of (48 + n mod 10)])"

definition sample_size_text :: "int \<Rightarrow> string" where
  "sample_size_text n = (if n < 0 then ''-'' else []) @ decimal (nat \<bar>n\<bar>) @ '' B''"

definition sample_escape :: "string \<Rightarrow> string" where
  "sample_escape s =
     concat (map (\<lambda>c. if c = CHR ''&'' then ''&amp;''
                       else if c = CHR ''<'' then ''&lt;''
                       else if c = CHR ''>'' then ''&gt;'' else [c]) s)"

definition sample_helpers :: helpers where
  "sample_helpers =
     \<lparr>size_to_human_readable = sample_size_text, markup_escape_text = sample_escape\<rparr>"

definition sample_model :: model where
  "sample_model =
     \<lparr>lookup_by_path =
        (\<lambda>p. if p = ''/tmp/a'' then Some \<lparr>SIZE = 4096\<rparr>
             else if p = ''/tmp/b'' then Some \<lparr>SIZE = 10\<rparr> else None)\<rparr>"

definition sample_script :: script where
  "sample_script = \<lparr>read = ''#!/bin/sh'', connections = [], run_calls = []\<rparr>"

definition sample_view :: editor_view where
  "sample_view = on_view_enter None (EditorView_init sample_helpers ''Editor'' sample_script)"

text \<open>The sample view after a click on Run, one line-read event and script-finished.\<close>

definition finished_view :: editor_view where
  "finished_view =
     handle_all sample_helpers
       [Run_clicked (Some sample_model),
        Line_read (Some sample_model) ''Removing'' ''/tmp/a'',
        Script_finished] sample_view"

definition sample_tm :: tm where
  "sample_tm = \<lparr>date_F = ''2016-02-29'', time_T = ''12:00:00'', zone_z = ''+0100''\<rparr>"

section \<open>Properties of the running label\<close>

lemma push_keeping_id: "lower prefix = ''keeping'' \<Longrightarrow> push H mdl prefix path self = self"
  by (simp add: push_def)

lemma lower_Keeping: "lower ''Keeping'' = ''keeping''"
  by code_simp

lemma lower_KEEPING: "lower ''KEEPING'' = ''keeping''"
  by code_simp

lemma lower_Removing: "lower ''Removing'' \<noteq> ''keeping''"
  by code_simp

lemma sample_lookup_a: "lookup_by_path sample_model ''/tmp/a'' = Some \<lparr>SIZE = 4096\<rparr>"
  by (simp add: sample_model_def)

text \<open>
  C3. An event whose prefix does not lower to \<open>keeping\<close>, pushed with a size index:
  when the index resolves the path, the total grows by exactly the size of the row found;
  when it does not, the total stays. \<open>push\<close> has no raising branch, so the unresolved path
  is not an error.
\<close>

theorem push_adds_resolved_size:
  "lower prefix \<noteq> ''keeping'' \<Longrightarrow>
   size_sum (push H (Some m) prefix path self) =
     (case lookup_by_path m path of
        None \<Rightarrow> size_sum self
      | Some nd \<Rightarrow> size_sum self + SIZE nd)"
  by (simp add: push_def Let_def split: option.splits)

theorem push_adds_resolved_size_witness:
  "lower ''Removing'' \<noteq> ''keeping'' \<and>
   lookup_by_path sample_model ''/tmp/a'' = Some \<lparr>SIZE = 4096\<rparr> \<and>
   size_sum (push sample_helpers (Some sample_model) ''Removing'' ''/tmp/a''
               \<lparr>size_sum = 10, markup = []\<rparr>) = 4106 \<and>
   lookup_by_path sample_model ''/tmp/zz'' = None \<and>
   size_sum (push sample_helpers (Some sample_model) ''Removing'' ''/tmp/zz''
               \<lparr>size_sum = 10, markup = []\<rparr>) = 10"
  using push_adds_resolved_size [OF lower_Removing, of sample_helpers sample_model "''/tmp/a''"
          "\<lparr>size_sum = 10, markup = []\<rparr>"]
        push_adds_resolved_size [OF lower_Removing, of sample_helpers sample_model "''/tmp/zz''"
          "\<lparr>size_sum = 10, markup = []\<rparr>"]
        lower_Removing
  by (simp add: sample_model_def)

text \<open>
  C4. A sequence of events whose prefixes all lower to \<open>keeping\<close> leaves the total as it
  was, whatever the paths and whatever the index; a single such event is the sequence of
  length one.
\<close>

theorem keeping_events_keep_size_sum:
  "\<forall>(prefix, path)\<in>set evs. lower prefix = ''keeping'' \<Longrightarrow>
   size_sum (push_all H mdl evs self) = size_sum self"
proof (induction evs arbitrary: self)
  case Nil
  show ?case by (simp add: push_all_def)
next
  case (Cons e evs)
  obtain prefix path where e: "e = (prefix, path)" by (cases e)
  from Cons.prems e have k: "lower prefix = ''keeping''" by simp
  from Cons.prems have rest: "\<forall>(prefix, path)\<in>set evs. lower prefix = ''keeping''" by simp
  have "push_all H mdl (e # evs) self = push_all H mdl evs (push H mdl prefix path self)"
    by (simp add: push_all_def e)
  also have "\<dots> = push_all H mdl evs self" by (simp add: push_keeping_id [OF k])
  finally show ?case using Cons.IH [OF rest] by simp
qed

theorem keeping_events_keep_size_sum_witness:
  "lower ''Keeping'' = ''keeping'' \<and> lower ''KEEPING'' = ''keeping'' \<and>
   size_sum (push_all sample_helpers (Some sample_model)
               [(''Keeping'', ''/tmp/a''), (''KEEPING'', ''/tmp/b'')]
               \<lparr>size_sum = 7, markup = []\<rparr>) = 7"
proof -
  have h: "\<forall>(prefix, path)\<in>set [(''Keeping'', ''/tmp/a''), (''KEEPING'', ''/tmp/b'')].
       lower prefix = ''keeping''"
    by (simp add: lower_Keeping lower_KEEPING)
  show ?thesis
    using keeping_events_keep_size_sum [OF h, of sample_helpers "Some sample_model"
                "\<lparr>size_sum = 7, markup = []\<rparr>"]
    by (simp add: lower_Keeping lower_KEEPING)
qed

text \<open>
  C5, as the specification has it: after a \<open>keeping\<close> event the label shows that event's
  prefix and path. On the code it does not: pushed onto a fresh label, the event
  \<open>(keeping, /tmp/a)\<close> leaves the markup of the empty first event, which holds neither the
  prefix nor the path.
\<close>

theorem keeping_event_not_shown:
  "markup (push sample_helpers (Some sample_model) ''keeping'' ''/tmp/a''
             (RunningLabel_init sample_helpers)) =
     ''<big>0 B</big><small> removed</small>'' @ [CHR 0x0A] @
     ''<small></small> <b><big></big></b>'' @ [CHR 0x0A]"
  by code_simp

text \<open>
  C5, amended: an event whose prefix lowers to \<open>keeping\<close> changes nothing; the markup
  shown and the total are both what they were before the event.
\<close>

theorem keeping_event_changes_nothing:
  "lower prefix = ''keeping'' \<Longrightarrow> push H mdl prefix path self = self"
  by (simp add: push_def)

theorem keeping_event_changes_nothing_witness:
  "lower ''Keeping'' = ''keeping'' \<and>
   push sample_helpers (Some sample_model) ''Keeping'' ''/tmp/a''
     \<lparr>size_sum = 7, markup = ''shown''\<rparr> = \<lparr>size_sum = 7, markup = ''shown''\<rparr>"
  using keeping_event_changes_nothing [OF lower_Keeping, of sample_helpers "Some sample_model"
          "''/tmp/a''" "\<lparr>size_sum = 7, markup = ''shown''\<rparr>"] lower_Keeping
  by simp

text \<open>
  C9. For an event that is not \<open>keeping\<close> and whose path the index resolves, the markup is
  rendered with the total as it was before the event: the size shown is the new total
  less the size of the row just added.
\<close>

theorem displayed_total_lags:
  "lower prefix \<noteq> ''keeping'' \<Longrightarrow> lookup_by_path m path = Some nd \<Longrightarrow>
   markup (push H (Some m) prefix path self) =
     REMOVED_LABEL (size_to_human_readable H (size_sum self)) prefix (markup_escape_text H path) \<and>
   size_sum self = size_sum (push H (Some m) prefix path self) - SIZE nd"
  by (simp add: push_def Let_def)

theorem displayed_total_lags_witness:
  "lower ''Removing'' \<noteq> ''keeping'' \<and>
   lookup_by_path sample_model ''/tmp/a'' = Some \<lparr>SIZE = 4096\<rparr> \<and>
   markup (push sample_helpers (Some sample_model) ''Removing'' ''/tmp/a''
             \<lparr>size_sum = 10, markup = []\<rparr>) =
     ''<big>10 B</big><small> removed</small>'' @ [CHR 0x0A] @
     ''<small>Removing</small> <b><big>/tmp/a</big></b>'' @ [CHR 0x0A] \<and>
   size_sum (push sample_helpers (Some sample_model) ''Removing'' ''/tmp/a''
               \<lparr>size_sum = 10, markup = []\<rparr>) = 4106"
proof -
  have s: "size_to_human_readable sample_helpers 10 = ''10 B''" by code_simp
  have e: "markup_escape_text sample_helpers ''/tmp/a'' = ''/tmp/a''" by code_simp
  show ?thesis
    using displayed_total_lags [OF lower_Removing sample_lookup_a, of sample_helpers
            "\<lparr>size_sum = 10, markup = []\<rparr>"] lower_Removing sample_lookup_a
    by (simp add: REMOVED_LABEL_def s e)
qed

section \<open>Properties of the screens and the Run control\<close>

lemma sensitive_set_sensitive: "sensitive (set_sensitive b rb) = b"
  by (simp add: set_sensitive_def toggle_dry_run_def Let_def)

lemma sensitive_state_toggled: "sensitive (state_toggled b rb) = sensitive rb"
  by (simp add: state_toggled_def toggle_dry_run_def)

lemma run_button_switch_to_script: "run_button (switch_to_script v) = run_button v"
  by (simp add: switch_to_script_def)

lemma run_button_on_run_script_clicked: "run_button (on_run_script_clicked mdl v) = run_button v"
  by (simp add: on_run_script_clicked_def Let_def)

lemma stack_on_run_script_clicked: "stack (on_run_script_clicked mdl v) = ''progressing''"
  by (simp add: on_run_script_clicked_def Let_def)

lemma run_calls_on_run_script_clicked:
  "run_calls (script (on_run_script_clicked mdl v)) = run_calls (script v) @ [True]"
  by (simp add: on_run_script_clicked_def Let_def run_def connect_def)

lemma line_read_keeps_screen:
  "is_line_read e \<Longrightarrow>
   stack (handle H e v) = stack v \<and> run_button (handle H e v) = run_button v"
  by (cases e) (simp_all add: line_read_handler_def)

lemma line_reads_keep_screen:
  "\<forall>e\<in>set evs. is_line_read e \<Longrightarrow>
   stack (handle_all H evs v) = stack v \<and> run_button (handle_all H evs v) = run_button v"
proof (induction evs arbitrary: v)
  case Nil
  show ?case by (simp add: handle_all_def)
next
  case (Cons e evs)
  from Cons.prems have e: "is_line_read e" and rest: "\<forall>e\<in>set evs. is_line_read e" by simp_all
  have "handle_all H (e # evs) v = handle_all H evs (handle H e v)"
    by (simp add: handle_all_def)
  then show ?case using Cons.IH [OF rest, of "handle H e v"] line_read_keeps_screen [OF e, of H v]
    by simp
qed

lemma handle_keeps_insensitive:
  "\<not> is_view_enter e \<Longrightarrow> \<not> sensitive (run_button v) \<Longrightarrow> \<not> sensitive (run_button (handle H e v))"
  by (cases e)
     (simp_all add: run_button_on_run_script_clicked line_read_handler_def
        script_finished_handler_def switch_back_def run_button_switch_to_script
        sensitive_set_sensitive sensitive_state_toggled)

lemma handle_all_keeps_insensitive:
  "\<forall>e\<in>set evs. \<not> is_view_enter e \<Longrightarrow> \<not> sensitive (run_button v) \<Longrightarrow>
   \<not> sensitive (run_button (handle_all H evs v))"
proof (induction evs arbitrary: v)
  case Nil
  then show ?case by (simp add: handle_all_def)
next
  case (Cons e evs)
  from Cons.prems have e: "\<not> is_view_enter e" and rest: "\<forall>e\<in>set evs. \<not> is_view_enter e"
    by simp_all
  have step: "\<not> sensitive (run_button (handle H e v))"
    using handle_keeps_insensitive [OF e Cons.prems(2)] .
  have "handle_all H (e # evs) v = handle_all H evs (handle H e v)"
    by (simp add: handle_all_def)
  then show ?case using Cons.IH [OF rest step] by simp
qed

text \<open>
  C1. The specification has the run request carry the dry-run flag of the toggle as it is
  at the click. With the toggle switched off (\<open>dry_run = False\<close>, the real run that the
  red button and the danger icon announce), the click on Run still calls \<open>run\<close> with
  \<open>True\<close>: the call is written with the constant, not with the property of the button.
\<close>

theorem run_request_ignores_toggle:
  "dry_run (run_button (handle sample_helpers (Dry_run_toggled False) sample_view)) = False \<and>
   run_calls (script (handle sample_helpers (Run_clicked (Some sample_model))
                        (handle sample_helpers (Dry_run_toggled False) sample_view))) = [True]"
  by (simp add: sample_view_def EditorView_init_def sample_script_def on_view_enter_def
        switch_to_script_def on_run_script_clicked_def state_toggled_def toggle_dry_run_def
        run_def connect_def Let_def)

text \<open>
  C2, as the specification has it: while the running screen is shown the Run control is
  disabled. On the code it is not: after the click on Run in the view just entered the
  stack shows \<open>progressing\<close> and the control is still sensitive.
\<close>

theorem run_control_sensitive_while_running:
  "stack (handle sample_helpers (Run_clicked (Some sample_model)) sample_view) = ''progressing'' \<and>
   sensitive (run_button (handle sample_helpers (Run_clicked (Some sample_model)) sample_view))"
  by (simp add: sample_view_def EditorView_init_def on_view_enter_def
        switch_to_script_def on_run_script_clicked_def set_sensitive_def toggle_dry_run_def
        Let_def)

text \<open>
  C2, amended: after a click on Run and any number of line-read events the stack shows
  \<open>progressing\<close>, which is not the page that holds the Run control, so the control is out
  of sight rather than disabled; its sensitivity is what it was before the click; and
  the page changes when script-finished arrives, to \<open>finished\<close>.
\<close>

theorem running_screen_hides_run_control:
  "\<forall>e\<in>set evs. is_line_read e \<Longrightarrow>
   stack (handle_all H evs (on_run_script_clicked mdl v)) = ''progressing'' \<and>
   stack (handle_all H evs (on_run_script_clicked mdl v)) \<noteq> run_button_page \<and>
   sensitive (run_button (handle_all H evs (on_run_script_clicked mdl v))) =
     sensitive (run_button v) \<and>
   stack (handle H Script_finished (handle_all H evs (on_run_script_clicked mdl v))) =
     ''finished''"
  using line_reads_keep_screen [of evs H "on_run_script_clicked mdl v"]
  by (simp add: stack_on_run_script_clicked run_button_on_run_script_clicked
        run_button_page_def script_finished_handler_def)

theorem running_screen_hides_run_control_witness:
  "is_line_read (Line_read (Some sample_model) ''Removing'' ''/tmp/a'') \<and>
   is_line_read (Line_read (Some sample_model) ''Keeping'' ''/tmp/b'') \<and>
   stack (handle_all sample_helpers
            [Line_read (Some sample_model) ''Removing'' ''/tmp/a'',
             Line_read (Some sample_model) ''Keeping'' ''/tmp/b'']
            (on_run_script_clicked (Some sample_model) sample_view)) = ''progressing'' \<and>
   sensitive (run_button (handle_all sample_helpers
            [Line_read (Some sample_model) ''Removing'' ''/tmp/a'',
             Line_read (Some sample_model) ''Keeping'' ''/tmp/b'']
            (on_run_script_clicked (Some sample_model) sample_view))) \<and>
   stack (handle sample_helpers Script_finished (handle_all sample_helpers
            [Line_read (Some sample_model) ''Removing'' ''/tmp/a'',
             Line_read (Some sample_model) ''Keeping'' ''/tmp/b'']
            (on_run_script_clicked (Some sample_model) sample_view))) = ''finished''"
proof -
  have h: "\<forall>e\<in>set [Line_read (Some sample_model) ''Removing'' ''/tmp/a'',
              Line_read (Some sample_model) ''Keeping'' ''/tmp/b'']. is_line_read e"
    by simp
  have s: "sensitive (run_button sample_view)"
    by (simp add: sample_view_def on_view_enter_def run_button_switch_to_script
          sensitive_set_sensitive Let_def)
  show ?thesis
    using s
      running_screen_hides_run_control [OF h, of sample_helpers "Some sample_model" sample_view]
    by simp
qed

text \<open>
  C10. "Go back to Script" shows the \<open>danger\<close> page again and makes the Run control
  insensitive. No event other than the entering of the view makes it sensitive again,
  not even a further click; \<open>on_view_enter\<close> does.
\<close>

theorem go_back_disables_run_until_view_enter:
  "\<forall>e\<in>set evs. \<not> is_view_enter e \<Longrightarrow>
   stack (switch_back v) = ''danger'' \<and>
   \<not> sensitive (run_button (switch_back v)) \<and>
   \<not> sensitive (run_button (handle_all H evs (switch_back v))) \<and>
   sensitive (run_button (on_view_enter run_script (handle_all H evs (switch_back v))))"
proof -
  assume evs: "\<forall>e\<in>set evs. \<not> is_view_enter e"
  have off: "\<not> sensitive (run_button (switch_back v))"
    by (simp add: switch_back_def run_button_switch_to_script sensitive_set_sensitive)
  have page: "stack (switch_back v) = ''danger''"
    by (simp add: switch_back_def switch_to_script_def)
  have stays: "\<not> sensitive (run_button (handle_all H evs (switch_back v)))"
    using handle_all_keeps_insensitive [OF evs off] .
  have on: "sensitive (run_button (on_view_enter run_script (handle_all H evs (switch_back v))))"
    by (simp add: on_view_enter_def Let_def run_button_switch_to_script sensitive_set_sensitive
          split: option.splits)
  from page off stays on show ?thesis by simp
qed

theorem go_back_disables_run_until_view_enter_witness:
  "\<not> is_view_enter (Dry_run_toggled False) \<and> \<not> is_view_enter (Run_clicked None) \<and>
   \<not> is_view_enter Save_clicked \<and> \<not> is_view_enter Saved \<and>
   stack finished_view = ''finished'' \<and>
   stack (switch_back finished_view) = ''danger'' \<and>
   \<not> sensitive (run_button (switch_back finished_view)) \<and>
   \<not> sensitive (run_button (handle_all sample_helpers
        [Dry_run_toggled False, Run_clicked None, Save_clicked, Saved]
        (switch_back finished_view))) \<and>
   sensitive (run_button (on_view_enter None (handle_all sample_helpers
        [Dry_run_toggled False, Run_clicked None, Save_clicked, Saved]
        (switch_back finished_view))))"
proof -
  have h: "\<forall>e\<in>set [Dry_run_toggled False, Run_clicked None, Save_clicked, Saved].
      \<not> is_view_enter e"
    by simp
  have f: "stack finished_view = ''finished''"
    by (simp add: finished_view_def handle_all_def script_finished_handler_def)
  show ?thesis
    using f
      go_back_disables_run_until_view_enter [OF h, of finished_view sample_helpers None]
    by simp
qed

section \<open>Properties of the save dialog\<close>

lemma strftime_plain: "c \<noteq> CHR ''%'' \<Longrightarrow> strftime t (c # s) = c # strftime t s"
  by (cases s) simp_all

lemma strftime_F: "strftime t (CHR ''%'' # CHR ''F'' # s) = date_F t @ strftime t s"
  by simp

lemma strftime_T: "strftime t (CHR ''%'' # CHR ''T'' # s) = time_T t @ strftime t s"
  by simp

lemma strftime_z: "strftime t (CHR ''%'' # CHR ''z'' # s) = zone_z t @ strftime t s"
  by simp

lemma strftime_no_directive: "CHR ''%'' \<notin> set s \<Longrightarrow> strftime t s = s"
  by (induction s) (auto simp: strftime_plain [OF not_sym])

lemma strftime_suggestion:
  "CHR ''%'' \<notin> set ext \<Longrightarrow>
   strftime t (''rmlint-%FT%T%z.'' @ ext) =
     ''rmlint-'' @ date_F t @ ''T'' @ time_T t @ zone_z t @ ''.'' @ ext"
  by (simp only: append_Cons append_Nil strftime_plain strftime_F strftime_T strftime_z
        strftime_no_directive char.inject simp_thms list.simps append_assoc if_False if_True)

lemma rsplit1_none: "sep \<notin> set s \<Longrightarrow> rsplit1 sep s = [s]"
proof -
  assume a: "sep \<notin> set s"
  then have d: "dropWhile (\<lambda>c. c \<noteq> sep) (rev s) = []" by auto
  show ?thesis unfolding rsplit1_def Let_def d by simp
qed

lemma rsplit1_last:
  assumes "sep \<notin> set ext"
  shows "rsplit1 sep (base @ sep # ext) = [base, ext]"
proof -
  have r: "rev (base @ sep # ext) = rev ext @ sep # rev base" by simp
  have t: "takeWhile (\<lambda>c. c \<noteq> sep) (rev ext @ sep # rev base) = rev ext"
    using assms by (subst takeWhile_append2) auto
  have d: "dropWhile (\<lambda>c. c \<noteq> sep) (rev ext @ sep # rev base) = sep # rev base"
    using assms by (subst dropWhile_append2) auto
  show ?thesis unfolding rsplit1_def r t d by simp
qed

lemma choices_no_directive: "c \<in> set choices \<Longrightarrow> CHR ''%'' \<notin> set c"
  by (auto simp: choices_def)

text \<open>
  C6. The \<open>Save\<close> button is insensitive in the dialog as \<open>__init__\<close> leaves it, and after
  every selection-changed event it is sensitive exactly when the filename the chooser
  reports is present and not empty.
\<close>

theorem confirm_follows_filename:
  "confirm_sensitive (ScriptSaverDialog_init t choice) = False \<and>
   confirm_sensitive (on_selection_changed filename self) =
     (filename \<noteq> None \<and> filename \<noteq> Some [])"
  by (cases filename)
     (simp_all add: ScriptSaverDialog_init_def update_file_suggestion_def set_current_name_def
        on_selection_changed_def truthy_def Let_def)

text \<open>
  C7. With one of the three formats \<open>c\<close> selected: the suggestion is \<open>rmlint-\<close>, the date,
  \<open>T\<close>, the time, the zone, a dot and \<open>c\<close>; a format change with no filename (absent or
  empty) makes the suggestion anew; and a format change with a filename that ends in a
  dot and an extension sets the name to the part before that dot, a dot and \<open>c\<close>.
\<close>

theorem file_suggestion_and_extension_swap:
  assumes c: "c \<in> set choices" and ext: "CHR ''.'' \<notin> set ext"
  shows
   "current_name (update_file_suggestion t (Some c) self) =
      ''rmlint-'' @ date_F t @ ''T'' @ time_T t @ zone_z t @ ''.'' @ c \<and>
    on_file_type_changed t (Some c) None self = Inr (update_file_suggestion t (Some c) self) \<and>
    on_file_type_changed t (Some c) (Some []) self =
      Inr (update_file_suggestion t (Some c) self) \<and>
    on_file_type_changed t (Some c) (Some (base @ ''.'' @ ext)) self =
      Inr (self\<lparr>current_name := base @ ''.'' @ c\<rparr>)"
proof -
  from c have ne: "c \<noteq> []" by (auto simp: choices_def)
  have sugg: "current_name (update_file_suggestion t (Some c) self) =
      ''rmlint-'' @ date_F t @ ''T'' @ time_T t @ zone_z t @ ''.'' @ c"
    using strftime_suggestion [OF choices_no_directive [OF c], of t] ne
    by (simp add: update_file_suggestion_def set_current_name_def opt_or_def)
  have none: "on_file_type_changed t (Some c) None self =
      Inr (update_file_suggestion t (Some c) self)"
    by (simp add: on_file_type_changed_def)
  have empty: "on_file_type_changed t (Some c) (Some []) self =
      Inr (update_file_suggestion t (Some c) self)"
    by (simp add: on_file_type_changed_def)
  have swap: "on_file_type_changed t (Some c) (Some (base @ ''.'' @ ext)) self =
      Inr (self\<lparr>current_name := base @ ''.'' @ c\<rparr>)"
    by (simp add: on_file_type_changed_def rsplit1_last [OF ext] set_current_name_def str_or_def)
  from sugg none empty swap show ?thesis by simp
qed

theorem file_suggestion_and_extension_swap_witness:
  "''json'' \<in> set choices \<and> CHR ''.'' \<notin> set ''sh'' \<and>
   current_name (update_file_suggestion sample_tm (Some ''json'')
                   (ScriptSaverDialog_init sample_tm (Some ''sh''))) =
     ''rmlint-2016-02-29T12:00:00+0100.json'' \<and>
   on_file_type_changed sample_tm (Some ''json'') (Some ''foo.sh'')
       (ScriptSaverDialog_init sample_tm (Some ''sh'')) =
     Inr ((ScriptSaverDialog_init sample_tm (Some ''sh''))\<lparr>current_name := ''foo.json''\<rparr>)"
proof -
  have c: "''json'' \<in> set choices" by (simp add: choices_def)
  have e: "CHR ''.'' \<notin> set ''sh''" by simp
  show ?thesis
    using c e file_suggestion_and_extension_swap [OF c e, of sample_tm
                "ScriptSaverDialog_init sample_tm (Some ''sh'')" "''foo''"]
    by (simp add: sample_tm_def)
qed

lemma dotless_path_unchanged:
  "p \<noteq> [] \<Longrightarrow> CHR ''.'' \<notin> set p \<Longrightarrow> on_file_type_changed t choice (Some p) self = Inr self"
  by (simp add: on_file_type_changed_def rsplit1_none)

text \<open>
  C8. The handler means to leave a name without extension alone: its \<open>except ValueError\<close>
  branch carries the comment "No extension. Leave it.", and it does so whenever the whole
  answer of \<open>get_filename()\<close> holds no dot. That answer is the absolute path of the file,
  and the dot is searched in all of it. For the name \<open>notes\<close>, which has no dot, in the
  directory \<open>/home/u.ser\<close> the path is cut at the dot of the directory, and with \<open>json\<close>
  selected the handler sets the name to \<open>/home/u.json\<close>: the name without extension is
  not left unchanged.
\<close>

theorem dotted_directory_name_rewritten:
  "CHR ''.'' \<notin> set ''notes'' \<and>
   on_file_type_changed sample_tm (Some ''json'') (Some ''/home/u.ser/notes'')
     \<lparr>confirm_sensitive = True, current_name = ''notes''\<rparr> =
     Inr \<lparr>confirm_sensitive = True, current_name = ''/home/u.json''\<rparr>"
  by (simp add: on_file_type_changed_def rsplit1_def set_current_name_def str_or_def Let_def)

end
